theory Spec2Isabelle
  imports Main
begin

section \<open>The type model and the Python values the constructor handles\<close>

text \<open>
  Modelled from the spec: the module \<open>computation_types\<close> is not part of the sources at
  hand; the spec's data model gives a type as a tagged union of tensor, ordered struct
  with optionally named fields, sequence and function with an optional parameter.
  Structural equality of types (\<open>==\<close> and \<open>!=\<close> in the source) is HOL equality.
\<close>

datatype ty =
    TensorType string "nat option list"
  | NamedTupleType "(string option \<times> ty) list"
  | SequenceType ty
  | FunctionType "ty option" ty

text \<open>
  An expression such as \<open>comp.type_signature.parameter\<close> evaluates to a type or to
  \<open>None\<close>; such a value is a \<open>ty option\<close>.
\<close>

text \<open>
  Exceptions are values: the class, and the message as far as the source fixes it.  A
  message built by \<open>'...'.format(a, b)\<close> is kept as its template and its arguments;
  \<open>External\<close> stands for the text of an exception raised outside the constructor's own
  \<open>raise\<close> statements (by \<open>py_typecheck\<close>, \<open>type_analysis\<close>, or by Python for a missing
  attribute, \<open>len\<close> of an unsized value, or a subscript).
\<close>

datatype exc = TypeError | AssertionError | ValueError | IndexError | AttributeError

datatype fmt_arg = TypeArg "ty option" | StrArg "string option"

datatype message = Format string "fmt_arg list" | External

type_synonym error = "exc \<times> message"

text \<open>
  What a handle holds under the private attribute \<open>_computation_proto\<close>: nothing (the
  object has no such attribute), \<open>None\<close>, some object that is not a
  \<open>computation_pb2.Computation\<close>, or such a message, of which the constructor reads
  only \<open>WhichOneof('computation')\<close> (a field name, or \<open>None\<close> when the oneof is unset).
\<close>

datatype pyproto = NoAttribute | PyNone | OtherObject | Computation_pb "string option"

text \<open>
  A handle is an instance of \<open>computation_base.Computation\<close>, so that the
  \<open>py_typecheck.check_type(comp, computation_base.Computation, label)\<close> of line 290 holds
  of every value of this type.  Its type signature is any type: the constructor itself
  checks for \<open>FunctionType\<close> where it needs one.
\<close>

record computation =
  computation_proto :: pyproto
  type_signature :: ty

definition bind_exc :: "error + 'a \<Rightarrow> ('a \<Rightarrow> error + 'b) \<Rightarrow> error + 'b" where
  "bind_exc m f = (case m of Inl e \<Rightarrow> Inl e | Inr x \<Rightarrow> f x)"

text \<open>
  Modelled from the spec: the classes \<open>FunctionType\<close> and \<open>NamedTupleType\<close> of
  \<open>computation_types\<close> are not part of the sources at hand.  Per the spec's data model a
  function type has a parameter (possibly absent) and a result, and a struct is an ordered
  list of fields.  What the constructor does with them is Python's: the attributes
  \<open>t.parameter\<close> and \<open>t.result\<close> exist on a function type only (\<open>AttributeError\<close>
  otherwise), and \<open>isinstance\<close> tells the class.
\<close>

fun parameter :: "ty \<Rightarrow> error + ty option" where
  "parameter (FunctionType p r) = Inr p"
| "parameter _ = Inl (AttributeError, External)"

fun result :: "ty \<Rightarrow> error + ty" where
  "result (FunctionType p r) = Inr r"
| "result _ = Inl (AttributeError, External)"

fun isinstance_NamedTupleType :: "ty option \<Rightarrow> bool" where
  "isinstance_NamedTupleType (Some (NamedTupleType es)) = True"
| "isinstance_NamedTupleType _ = False"

fun isinstance_FunctionType :: "ty \<Rightarrow> bool" where
  "isinstance_FunctionType (FunctionType p r) = True"
| "isinstance_FunctionType _ = False"

text \<open>
  Modelled from the spec: \<open>len(x)\<close> and \<open>x[i]\<close> on the absent classes.  A struct, being
  an ordered list of fields, has a length and is indexed by position (the field's type,
  whatever its name), a position out of range raising \<open>IndexError\<close> as for any Python
  sequence; \<open>None\<close> and the other types are neither sized nor subscriptable, which Python
  reports as \<open>TypeError\<close>.
\<close>

fun len :: "ty option \<Rightarrow> error + nat" where
  "len (Some (NamedTupleType es)) = Inr (length es)"
| "len _ = Inl (TypeError, External)"

fun getitem :: "ty option \<Rightarrow> nat \<Rightarrow> error + ty" where
  "getitem (Some (NamedTupleType es)) i =
     (if i < length es then Inr (snd (es ! i)) else Inl (IndexError, External))"
| "getitem _ i = Inl (TypeError, External)"

text \<open>
  Modelled from the spec: \<open>py_typecheck\<close>, \<open>type_analysis\<close> and \<open>computation_types.to_type\<close>
  are not part of the sources at hand.  \<open>check_type\<close> raises \<open>TypeError\<close> unless the value
  is an instance of the class; \<open>check_len\<close> raises \<open>ValueError\<close> on a different length;
  \<open>check_assignable_from\<close> raises \<open>TypeError\<close> unless the target is a type that the oracle
  \<open>assignable_from\<close> accepts the source for; \<open>to_type\<close> of a list of types is the struct of
  these types, unnamed.  The assignability oracle is a parameter of the development.
\<close>

definition check_type_FunctionType :: "ty \<Rightarrow> error + unit" where
  "check_type_FunctionType t =
     (if isinstance_FunctionType t then Inr () else Inl (TypeError, External))"

definition check_len :: "ty option \<Rightarrow> nat \<Rightarrow> error + unit" where
  "check_len target n =
     bind_exc (len target) (\<lambda>l. if l \<noteq> n then Inl (ValueError, External) else Inr ())"

definition check_assignable_from ::
  "(ty \<Rightarrow> ty \<Rightarrow> bool) \<Rightarrow> ty option \<Rightarrow> ty \<Rightarrow> error + unit" where
  "check_assignable_from assignable_from target source =
     (case target of
        None \<Rightarrow> Inl (TypeError, External)
      | Some t \<Rightarrow> if assignable_from t source then Inr () else Inl (TypeError, External))"

definition to_type :: "ty list \<Rightarrow> ty" where
  "to_type ts = NamedTupleType (map (Pair None) ts)"

section \<open>The constructor, statement by statement\<close>

text \<open>
  Line 294, the read \<open>comp._computation_proto\<close>: Python raises \<open>AttributeError\<close> when the
  object has no such attribute, and yields what is stored otherwise.
\<close>

definition getattr_computation_proto :: "computation \<Rightarrow> error + pyproto" where
  "getattr_computation_proto handle =
     (case computation_proto handle of
        NoAttribute \<Rightarrow> Inl (AttributeError, External)
      | stored \<Rightarrow> Inr stored)"

text \<open>Lines 290 to 302, the body of the loop over the nine labelled handles.\<close>

definition check_computation :: "string \<Rightarrow> computation \<Rightarrow> error + unit" where
  "check_computation label handle =
     bind_exc (getattr_computation_proto handle) (\<lambda>comp_proto.
       case comp_proto of
         Computation_pb which_comp \<Rightarrow>
           if which_comp \<noteq> Some ''tensorflow''
           then Inl (TypeError,
                  Format ''Expected all computations supplied as arguments to be plain TensorFlow, found {}.''
                    [StrArg which_comp])
           else Inr ()
       | _ \<Rightarrow> Inl (AssertionError,
                  Format ''Cannot find the embedded computation definition.'' []))"

fun check_computations :: "(string \<times> computation) list \<Rightarrow> error + unit" where
  "check_computations [] = Inr ()"
| "check_computations ((label, handle) # rest) =
     bind_exc (check_computation label handle) (\<lambda>_. check_computations rest)"

text \<open>Lines 304 to 309.\<close>

definition check_prepare_parameter :: "computation \<Rightarrow> computation \<Rightarrow> error + unit" where
  "check_prepare_parameter initialize prepare =
     bind_exc (parameter (type_signature prepare)) (\<lambda>p.
     bind_exc (result (type_signature initialize)) (\<lambda>r.
       if p \<noteq> Some r
       then Inl (TypeError,
              Format ''The `prepare` computation expects an argument of type {}, which does not match the result type {} of `initialize`.''
                [TypeArg p, TypeArg (Some r)])
       else Inr ()))"

text \<open>Lines 311 to 316; the \<open>or\<close> evaluates \<open>len\<close> only on a struct.\<close>

definition check_work_parameter_shape :: "computation \<Rightarrow> error + unit" where
  "check_work_parameter_shape work =
     bind_exc (parameter (type_signature work)) (\<lambda>p.
       if \<not> isinstance_NamedTupleType p
       then Inl (TypeError,
              Format ''The `work` computation expects an argument of type {} that is not a two-tuple.''
                [TypeArg p])
       else bind_exc (len p) (\<lambda>n.
         if n \<noteq> 2
         then Inl (TypeError,
                Format ''The `work` computation expects an argument of type {} that is not a two-tuple.''
                  [TypeArg p])
         else Inr ()))"

text \<open>Lines 318 to 323.\<close>

definition check_work_parameter_second :: "computation \<Rightarrow> computation \<Rightarrow> error + unit" where
  "check_work_parameter_second prepare work =
     bind_exc (parameter (type_signature work)) (\<lambda>p.
     bind_exc (getitem p 1) (\<lambda>p1.
     bind_exc (result (type_signature prepare)) (\<lambda>r.
       if p1 \<noteq> r
       then Inl (TypeError,
              Format ''The `work` computation expects an argument tuple with type {} as the second element (the initial client state from the server), which does not match the result type {} of `prepare`.''
                [TypeArg (Some p1), TypeArg (Some r)])
       else Inr ())))"

text \<open>Lines 325 to 330.\<close>

definition check_work_result_shape :: "computation \<Rightarrow> error + unit" where
  "check_work_result_shape work =
     bind_exc (result (type_signature work)) (\<lambda>r.
       if \<not> isinstance_NamedTupleType (Some r)
       then Inl (TypeError,
              Format ''The `work` computation returns a result  of type {} that is not a two-tuple.''
                [TypeArg (Some r)])
       else bind_exc (len (Some r)) (\<lambda>n.
         if n \<noteq> 2
         then Inl (TypeError,
                Format ''The `work` computation returns a result  of type {} that is not a two-tuple.''
                  [TypeArg (Some r)])
         else Inr ()))"

text \<open>Line 332.\<close>

definition check_zero :: "computation \<Rightarrow> error + unit" where
  "check_zero zero = check_type_FunctionType (type_signature zero)"

text \<open>Lines 334 to 336.\<close>

definition check_accumulate_shape :: "computation \<Rightarrow> error + unit" where
  "check_accumulate_shape accumulate =
     bind_exc (check_type_FunctionType (type_signature accumulate)) (\<lambda>_.
     bind_exc (parameter (type_signature accumulate)) (\<lambda>p. check_len p 2))"

text \<open>Lines 337 and 338.\<close>

definition check_accumulate_zero ::
  "(ty \<Rightarrow> ty \<Rightarrow> bool) \<Rightarrow> computation \<Rightarrow> computation \<Rightarrow> error + unit" where
  "check_accumulate_zero assignable_from zero accumulate =
     bind_exc (parameter (type_signature accumulate)) (\<lambda>p.
     bind_exc (getitem p 0) (\<lambda>p0.
     bind_exc (result (type_signature zero)) (\<lambda>r.
       check_assignable_from assignable_from (Some p0) r)))"

text \<open>Lines 339 to 346; \<open>work.type_signature.result[0][0]\<close> is subscripted unguarded.\<close>

definition check_accumulate_update :: "computation \<Rightarrow> computation \<Rightarrow> error + unit" where
  "check_accumulate_update work accumulate =
     bind_exc (parameter (type_signature accumulate)) (\<lambda>p.
     bind_exc (getitem p 1) (\<lambda>p1.
     bind_exc (result (type_signature work)) (\<lambda>r.
     bind_exc (getitem (Some r) 0) (\<lambda>r0.
     bind_exc (getitem (Some r0) 0) (\<lambda>r00.
       if p1 \<noteq> r00
       then Inl (TypeError,
              Format ''The `accumulate` computation expects a second argument of type {}, which does not match the expected {} as implied by the type signature of `work`.''
                [TypeArg (Some p1), TypeArg (Some r00)])
       else Inr ())))))"

text \<open>Lines 347 and 348.\<close>

definition check_accumulate_result ::
  "(ty \<Rightarrow> ty \<Rightarrow> bool) \<Rightarrow> computation \<Rightarrow> error + unit" where
  "check_accumulate_result assignable_from accumulate =
     bind_exc (parameter (type_signature accumulate)) (\<lambda>p.
     bind_exc (getitem p 0) (\<lambda>p0.
     bind_exc (result (type_signature accumulate)) (\<lambda>r.
       check_assignable_from assignable_from (Some p0) r)))"

text \<open>Lines 350 to 352.\<close>

definition check_merge_shape :: "computation \<Rightarrow> error + unit" where
  "check_merge_shape merge =
     bind_exc (check_type_FunctionType (type_signature merge)) (\<lambda>_.
     bind_exc (parameter (type_signature merge)) (\<lambda>p. check_len p 2))"

text \<open>Lines 353 and 354, then 355 and 356 with the other position.\<close>

definition check_merge_accumulate ::
  "(ty \<Rightarrow> ty \<Rightarrow> bool) \<Rightarrow> nat \<Rightarrow> computation \<Rightarrow> computation \<Rightarrow> error + unit" where
  "check_merge_accumulate assignable_from i accumulate merge =
     bind_exc (parameter (type_signature merge)) (\<lambda>p.
     bind_exc (getitem p i) (\<lambda>pi.
     bind_exc (result (type_signature accumulate)) (\<lambda>r.
       check_assignable_from assignable_from (Some pi) r)))"

text \<open>Lines 357 and 358.\<close>

definition check_merge_result ::
  "(ty \<Rightarrow> ty \<Rightarrow> bool) \<Rightarrow> computation \<Rightarrow> error + unit" where
  "check_merge_result assignable_from merge =
     bind_exc (parameter (type_signature merge)) (\<lambda>p.
     bind_exc (getitem p 0) (\<lambda>p0.
     bind_exc (result (type_signature merge)) (\<lambda>r.
       check_assignable_from assignable_from (Some p0) r)))"

text \<open>Lines 360 to 363.\<close>

definition check_report ::
  "(ty \<Rightarrow> ty \<Rightarrow> bool) \<Rightarrow> computation \<Rightarrow> computation \<Rightarrow> error + unit" where
  "check_report assignable_from merge report =
     bind_exc (check_type_FunctionType (type_signature report)) (\<lambda>_.
     bind_exc (parameter (type_signature report)) (\<lambda>p.
     bind_exc (result (type_signature merge)) (\<lambda>r.
       check_assignable_from assignable_from p r)))"

text \<open>Lines 365 and 366.\<close>

definition check_bitwidth :: "computation \<Rightarrow> error + unit" where
  "check_bitwidth bitwidth = check_type_FunctionType (type_signature bitwidth)"

text \<open>Lines 368 to 371; \<open>work.type_signature.result[0][1]\<close> is subscripted unguarded.\<close>

definition expected_update_parameter_type ::
  "computation \<Rightarrow> computation \<Rightarrow> computation \<Rightarrow> error + ty" where
  "expected_update_parameter_type initialize work report =
     bind_exc (result (type_signature initialize)) (\<lambda>s.
     bind_exc (result (type_signature report)) (\<lambda>r.
     bind_exc (result (type_signature work)) (\<lambda>w.
     bind_exc (getitem (Some w) 0) (\<lambda>w0.
     bind_exc (getitem (Some w0) 1) (\<lambda>w01.
       Inr (to_type [s, to_type [r, w01]]))))))"

text \<open>Lines 372 to 377.\<close>

definition check_update_parameter ::
  "computation \<Rightarrow> computation \<Rightarrow> computation \<Rightarrow> computation \<Rightarrow> error + unit" where
  "check_update_parameter initialize work report update =
     bind_exc (expected_update_parameter_type initialize work report) (\<lambda>expected.
     bind_exc (parameter (type_signature update)) (\<lambda>p.
       if p \<noteq> Some expected
       then Inl (TypeError,
              Format ''The `update` computation expects an argument of type {}, which does not match the expected {} as implied by the type signatures of `initialize`, `report`, and `work`.''
                [TypeArg p, TypeArg (Some expected)])
       else Inr ()))"

text \<open>Lines 379 to 384.\<close>

definition check_update_result_shape :: "computation \<Rightarrow> error + unit" where
  "check_update_result_shape update =
     bind_exc (result (type_signature update)) (\<lambda>r.
       if \<not> isinstance_NamedTupleType (Some r)
       then Inl (TypeError,
              Format ''The `update` computation returns a result  of type {} that is not a two-tuple.''
                [TypeArg (Some r)])
       else bind_exc (len (Some r)) (\<lambda>n.
         if n \<noteq> 2
         then Inl (TypeError,
                Format ''The `update` computation returns a result  of type {} that is not a two-tuple.''
                  [TypeArg (Some r)])
         else Inr ()))"

text \<open>Lines 386 to 392.\<close>

definition check_update_result_first :: "computation \<Rightarrow> computation \<Rightarrow> error + unit" where
  "check_update_result_first initialize update =
     bind_exc (result (type_signature update)) (\<lambda>r.
     bind_exc (getitem (Some r) 0) (\<lambda>r0.
     bind_exc (result (type_signature initialize)) (\<lambda>s.
       if r0 \<noteq> s
       then Inl (TypeError,
              Format ''The `update` computation returns a result tuple with type {} as the first element (the updated state of the server), which does not match the result type {} of `initialize`.''
                [TypeArg (Some r0), TypeArg (Some s)])
       else Inr ())))"

text \<open>
  The statements of the constructor in the order of the source.  None of them assigns
  anything, so the outcome of each is a value, and running them in sequence stops at
  the first that raises.
\<close>

definition validation ::
  "(ty \<Rightarrow> ty \<Rightarrow> bool) \<Rightarrow> computation \<Rightarrow> computation \<Rightarrow> computation \<Rightarrow> computation \<Rightarrow>
   computation \<Rightarrow> computation \<Rightarrow> computation \<Rightarrow> computation \<Rightarrow> computation \<Rightarrow>
   (error + unit) list" where
  "validation assignable_from initialize prepare work zero accumulate merge report
     bitwidth update =
   [ check_computations
       [(''initialize'', initialize), (''prepare'', prepare), (''work'', work),
        (''zero'', zero), (''accumulate'', accumulate), (''merge'', merge),
        (''report'', report), (''bitwidth'', bitwidth), (''update'', update)],
     check_prepare_parameter initialize prepare,
     check_work_parameter_shape work,
     check_work_parameter_second prepare work,
     check_work_result_shape work,
     check_zero zero,
     check_accumulate_shape accumulate,
     check_accumulate_zero assignable_from zero accumulate,
     check_accumulate_update work accumulate,
     check_accumulate_result assignable_from accumulate,
     check_merge_shape merge,
     check_merge_accumulate assignable_from 0 accumulate merge,
     check_merge_accumulate assignable_from 1 accumulate merge,
     check_merge_result assignable_from merge,
     check_report assignable_from merge report,
     check_bitwidth bitwidth,
     check_update_parameter initialize work report update,
     check_update_result_shape update,
     check_update_result_first initialize update ]"

fun run :: "(error + unit) list \<Rightarrow> error + unit" where
  "run [] = Inr ()"
| "run (Inl e # rest) = Inl e"
| "run (Inr u # rest) = run rest"

text \<open>
  A constructed form, as its nine read-only properties (lines 404 to 438) show it: each
  returns the handle that lines 394 to 402 stored.
\<close>

record CanonicalForm =
  self_initialize :: computation
  self_prepare :: computation
  self_work :: computation
  self_zero :: computation
  self_accumulate :: computation
  self_merge :: computation
  self_report :: computation
  self_bitwidth :: computation
  self_update :: computation

definition CanonicalForm_init ::
  "(ty \<Rightarrow> ty \<Rightarrow> bool) \<Rightarrow> computation \<Rightarrow> computation \<Rightarrow> computation \<Rightarrow> computation \<Rightarrow>
   computation \<Rightarrow> computation \<Rightarrow> computation \<Rightarrow> computation \<Rightarrow> computation \<Rightarrow>
   error + CanonicalForm" where
  "CanonicalForm_init assignable_from initialize prepare work zero accumulate merge report
     bitwidth update =
   bind_exc
     (run (validation assignable_from initialize prepare work zero accumulate merge report
        bitwidth update))
     (\<lambda>_. Inr \<lparr> self_initialize = initialize, self_prepare = prepare, self_work = work,
              self_zero = zero, self_accumulate = accumulate, self_merge = merge,
              self_report = report, self_bitwidth = bitwidth, self_update = update \<rparr>)"

text \<open>
  The method \<open>__init__\<close> itself acts on the object under construction.  The private
  attributes of \<open>self\<close> are unset until assigned; a statement that raises leaves \<open>self\<close>
  as the statements before it made it.  The body of the method is the checks of lines
  279 to 392 followed by the nine assignments of lines 394 to 402.
\<close>

record attributes =
  attr_initialize :: "computation option"
  attr_prepare :: "computation option"
  attr_work :: "computation option"
  attr_zero :: "computation option"
  attr_accumulate :: "computation option"
  attr_merge :: "computation option"
  attr_report :: "computation option"
  attr_bitwidth :: "computation option"
  attr_update :: "computation option"

definition unassigned :: attributes where
  "unassigned =
     \<lparr> attr_initialize = None, attr_prepare = None, attr_work = None, attr_zero = None,
       attr_accumulate = None, attr_merge = None, attr_report = None, attr_bitwidth = None,
       attr_update = None \<rparr>"

datatype statement = Check "error + unit" | Assign "attributes \<Rightarrow> attributes"

fun exec :: "statement list \<Rightarrow> attributes \<Rightarrow> error option \<times> attributes" where
  "exec [] self = (None, self)"
| "exec (Check (Inl e) # rest) self = (Some e, self)"
| "exec (Check (Inr u) # rest) self = exec rest self"
| "exec (Assign f # rest) self = exec rest (f self)"

definition init_statements ::
  "(ty \<Rightarrow> ty \<Rightarrow> bool) \<Rightarrow> computation \<Rightarrow> computation \<Rightarrow> computation \<Rightarrow> computation \<Rightarrow>
   computation \<Rightarrow> computation \<Rightarrow> computation \<Rightarrow> computation \<Rightarrow> computation \<Rightarrow>
   statement list" where
  "init_statements assignable_from initialize prepare work zero accumulate merge report
     bitwidth update =
   map Check (validation assignable_from initialize prepare work zero accumulate merge
     report bitwidth update) @
   [ Assign (\<lambda>self. self \<lparr> attr_initialize := Some initialize \<rparr>),
     Assign (\<lambda>self. self \<lparr> attr_prepare := Some prepare \<rparr>),
     Assign (\<lambda>self. self \<lparr> attr_work := Some work \<rparr>),
     Assign (\<lambda>self. self \<lparr> attr_zero := Some zero \<rparr>),
     Assign (\<lambda>self. self \<lparr> attr_accumulate := Some accumulate \<rparr>),
     Assign (\<lambda>self. self \<lparr> attr_merge := Some merge \<rparr>),
     Assign (\<lambda>self. self \<lparr> attr_report := Some report \<rparr>),
     Assign (\<lambda>self. self \<lparr> attr_bitwidth := Some bitwidth \<rparr>),
     Assign (\<lambda>self. self \<lparr> attr_update := Some update \<rparr>) ]"

definition init_on_self ::
  "(ty \<Rightarrow> ty \<Rightarrow> bool) \<Rightarrow> computation \<Rightarrow> computation \<Rightarrow> computation \<Rightarrow> computation \<Rightarrow>
   computation \<Rightarrow> computation \<Rightarrow> computation \<Rightarrow> computation \<Rightarrow> computation \<Rightarrow>
   attributes \<Rightarrow> error option \<times> attributes" where
  "init_on_self assignable_from initialize prepare work zero accumulate merge report
     bitwidth update self =
   exec (init_statements assignable_from initialize prepare work zero accumulate merge
     report bitwidth update) self"

section \<open>The summary\<close>

text \<open>
  Lines 440 to 461.  \<open>'{:<10}'.format(name)\<close> pads the name with spaces on the right up to
  ten characters.  The rendering \<open>compact_representation\<close> of a type belongs to
  \<open>computation_types\<close> and is a parameter, as is the sink \<open>print_fn\<close>, called once per
  line on the state of the output.
\<close>

definition ljust :: "nat \<Rightarrow> string \<Rightarrow> string" where
  "ljust n s = s @ replicate (n - length s) CHR '' ''"

definition computations :: "CanonicalForm \<Rightarrow> (string \<times> computation) list" where
  "computations self =
     [(''initialize'', self_initialize self),
      (''prepare'', self_prepare self),
      (''work'', self_work self),
      (''zero'', self_zero self),
      (''accumulate'', self_accumulate self),
      (''merge'', self_merge self),
      (''report'', self_report self),
      (''bitwidth'', self_bitwidth self),
      (''update'', self_initialize self)]"

definition summary_line :: "(ty \<Rightarrow> string) \<Rightarrow> string \<times> computation \<Rightarrow> string" where
  "summary_line compact_representation nc =
     ljust 10 (fst nc) @ '': '' @ compact_representation (type_signature (snd nc))"

definition summary ::
  "(ty \<Rightarrow> string) \<Rightarrow> (string \<Rightarrow> 'out \<Rightarrow> 'out) \<Rightarrow> CanonicalForm \<Rightarrow> 'out \<Rightarrow> 'out" where
  "summary compact_representation print_fn self out =
     fold (\<lambda>nc. print_fn (summary_line compact_representation nc)) (computations self) out"

section \<open>The invariants of the specification\<close>

text \<open>
  The specification speaks of the parameter and the result of a stage and of the
  elements of a struct.  These views are total: a stage whose signature is not a function
  type has neither a parameter nor a result, and only a struct has elements.
\<close>

definition sig_parameter :: "computation \<Rightarrow> ty option" where
  "sig_parameter c = (case type_signature c of FunctionType p r \<Rightarrow> p | _ \<Rightarrow> None)"

definition sig_result :: "computation \<Rightarrow> ty option" where
  "sig_result c = (case type_signature c of FunctionType p r \<Rightarrow> Some r | _ \<Rightarrow> None)"

definition elements :: "ty option \<Rightarrow> ty list option" where
  "elements t = (case t of Some (NamedTupleType es) \<Rightarrow> Some (map snd es) | _ \<Rightarrow> None)"

definition element :: "ty option \<Rightarrow> nat \<Rightarrow> ty option" where
  "element t i =
     (case elements t of
        Some ts \<Rightarrow> if i < length ts then Some (ts ! i) else None
      | None \<Rightarrow> None)"

text \<open>
  The first element of the result of \<open>work\<close> is the bundle of what a client contributes:
  its first element is the update type \<open>U\<close>, its second the side output.
\<close>

definition work_update :: "computation \<Rightarrow> ty option" where
  "work_update work = element (element (sig_result work) 0) 0"

definition work_side_output :: "computation \<Rightarrow> ty option" where
  "work_side_output work = element (element (sig_result work) 0) 1"

definition native_kernel :: "computation \<Rightarrow> bool" where
  "native_kernel c = (computation_proto c = Computation_pb (Some ''tensorflow''))"

definition I1 :: "computation \<Rightarrow> computation \<Rightarrow> bool" where
  "I1 initialize prepare =
     (case sig_result initialize of
        Some s \<Rightarrow> sig_parameter prepare = Some s
      | None \<Rightarrow> False)"

definition I2 :: "computation \<Rightarrow> computation \<Rightarrow> bool" where
  "I2 prepare work =
     (case elements (sig_parameter work) of
        Some [d, c] \<Rightarrow> sig_result prepare = Some c
      | _ \<Rightarrow> False)"

definition I3 :: "computation \<Rightarrow> bool" where
  "I3 work = (case elements (sig_result work) of Some [b, y] \<Rightarrow> True | _ \<Rightarrow> False)"

definition I4 :: "computation \<Rightarrow> bool" where
  "I4 zero = (case type_signature zero of FunctionType None a \<Rightarrow> True | _ \<Rightarrow> False)"

definition I5 ::
  "(ty \<Rightarrow> ty \<Rightarrow> bool) \<Rightarrow> computation \<Rightarrow> computation \<Rightarrow> computation \<Rightarrow> bool" where
  "I5 assignable_from work zero accumulate =
     (case elements (sig_parameter accumulate) of
        Some [a, u] \<Rightarrow>
          (case sig_result zero of Some z \<Rightarrow> assignable_from a z | None \<Rightarrow> False) \<and>
          work_update work = Some u
      | _ \<Rightarrow> False)"

definition I6 :: "(ty \<Rightarrow> ty \<Rightarrow> bool) \<Rightarrow> computation \<Rightarrow> bool" where
  "I6 assignable_from accumulate =
     (case element (sig_parameter accumulate) 0 of
        Some a \<Rightarrow>
          (case sig_result accumulate of Some r \<Rightarrow> assignable_from a r | None \<Rightarrow> False)
      | None \<Rightarrow> False)"

definition I7 :: "(ty \<Rightarrow> ty \<Rightarrow> bool) \<Rightarrow> computation \<Rightarrow> computation \<Rightarrow> bool" where
  "I7 assignable_from accumulate merge =
     (case elements (sig_parameter merge) of
        Some [m0, m1] \<Rightarrow>
          (case sig_result accumulate of
             Some r \<Rightarrow> assignable_from m0 r \<and> assignable_from m1 r
           | None \<Rightarrow> False) \<and>
          (case sig_result merge of Some r \<Rightarrow> assignable_from m0 r | None \<Rightarrow> False)
      | _ \<Rightarrow> False)"

definition I8 :: "(ty \<Rightarrow> ty \<Rightarrow> bool) \<Rightarrow> computation \<Rightarrow> computation \<Rightarrow> bool" where
  "I8 assignable_from merge report =
     (case sig_parameter report of
        Some p \<Rightarrow> (case sig_result merge of Some r \<Rightarrow> assignable_from p r | None \<Rightarrow> False)
      | None \<Rightarrow> False)"

definition I9 :: "computation \<Rightarrow> bool" where
  "I9 bitwidth = isinstance_FunctionType (type_signature bitwidth)"

definition I10 :: "computation \<Rightarrow> computation \<Rightarrow> computation \<Rightarrow> computation \<Rightarrow> bool" where
  "I10 initialize work report update =
     (case sig_result initialize of
        Some s \<Rightarrow>
          (case sig_result report of
             Some r \<Rightarrow>
               (case work_side_output work of
                  Some b \<Rightarrow>
                    sig_parameter update =
                      Some (NamedTupleType
                        [(None, s), (None, NamedTupleType [(None, r), (None, b)])])
                | None \<Rightarrow> False)
           | None \<Rightarrow> False)
      | None \<Rightarrow> False)"

definition I11 :: "computation \<Rightarrow> computation \<Rightarrow> bool" where
  "I11 initialize update =
     (case elements (sig_result update) of
        Some [s, x] \<Rightarrow> sig_result initialize = Some s
      | _ \<Rightarrow> False)"

definition I12 ::
  "computation \<Rightarrow> computation \<Rightarrow> computation \<Rightarrow> computation \<Rightarrow> computation \<Rightarrow>
   computation \<Rightarrow> computation \<Rightarrow> computation \<Rightarrow> computation \<Rightarrow> bool" where
  "I12 initialize prepare work zero accumulate merge report bitwidth update =
     (native_kernel initialize \<and> native_kernel prepare \<and> native_kernel work \<and>
      native_kernel zero \<and> native_kernel accumulate \<and> native_kernel merge \<and>
      native_kernel report \<and> native_kernel bitwidth \<and> native_kernel update)"

text \<open>
  The invariants that the constructor checks, in the order in which it checks them, each
  with the outcome of the statements that check it: the loop for I12; lines 304 to 309 for
  I1; 311 to 323 for I2; 325 to 330 for I3; 332 to 346 for I5 (which presupposes that
  \<open>zero\<close> has a result); 347 and 348 for I6; 350 to 358 for I7; 360 to 363 for I8; 365
  and 366 for I9; 368 to 377 for I10; 379 to 392 for I11.
\<close>

definition invariant_checks ::
  "(ty \<Rightarrow> ty \<Rightarrow> bool) \<Rightarrow> computation \<Rightarrow> computation \<Rightarrow> computation \<Rightarrow> computation \<Rightarrow>
   computation \<Rightarrow> computation \<Rightarrow> computation \<Rightarrow> computation \<Rightarrow> computation \<Rightarrow>
   (bool \<times> (error + unit)) list" where
  "invariant_checks assignable_from initialize prepare work zero accumulate merge report
     bitwidth update =
   [ (I12 initialize prepare work zero accumulate merge report bitwidth update,
      check_computations
        [(''initialize'', initialize), (''prepare'', prepare), (''work'', work),
         (''zero'', zero), (''accumulate'', accumulate), (''merge'', merge),
         (''report'', report), (''bitwidth'', bitwidth), (''update'', update)]),
     (I1 initialize prepare, check_prepare_parameter initialize prepare),
     (I2 prepare work,
      run [check_work_parameter_shape work, check_work_parameter_second prepare work]),
     (I3 work, check_work_result_shape work),
     (I5 assignable_from work zero accumulate,
      run [check_zero zero, check_accumulate_shape accumulate,
           check_accumulate_zero assignable_from zero accumulate,
           check_accumulate_update work accumulate]),
     (I6 assignable_from accumulate, check_accumulate_result assignable_from accumulate),
     (I7 assignable_from accumulate merge,
      run [check_merge_shape merge,
           check_merge_accumulate assignable_from 0 accumulate merge,
           check_merge_accumulate assignable_from 1 accumulate merge,
           check_merge_result assignable_from merge]),
     (I8 assignable_from merge report, check_report assignable_from merge report),
     (I9 bitwidth, check_bitwidth bitwidth),
     (I10 initialize work report update,
      check_update_parameter initialize work report update),
     (I11 initialize update,
      run [check_update_result_shape update, check_update_result_first initialize update]) ]"

definition constructed :: "error + CanonicalForm \<Rightarrow> bool" where
  "constructed outcome = (case outcome of Inr cf \<Rightarrow> True | Inl e \<Rightarrow> False)"

section \<open>A well-formed round, and variations of it\<close>

text \<open>
  The success scenario of the specification: every abstract type is the scalar
  \<open>int32\<close>, the client data a sequence of it, the outputs \<open>X\<close> and \<open>Y\<close> the empty
  struct; the side output of \<open>work\<close> is \<open>int32\<close> as well.
\<close>

definition int32 :: ty where
  "int32 = TensorType ''int32'' []"

definition tf_computation :: "ty \<Rightarrow> computation" where
  "tf_computation t =
     \<lparr> computation_proto = Computation_pb (Some ''tensorflow''), type_signature = t \<rparr>"

definition ex_initialize :: computation where
  "ex_initialize = tf_computation (FunctionType None int32)"

definition ex_prepare :: computation where
  "ex_prepare = tf_computation (FunctionType (Some int32) int32)"

definition ex_work :: computation where
  "ex_work = tf_computation
     (FunctionType (Some (to_type [SequenceType int32, int32]))
        (to_type [to_type [int32, int32], to_type []]))"

definition ex_zero :: computation where
  "ex_zero = tf_computation (FunctionType None int32)"

definition ex_accumulate :: computation where
  "ex_accumulate = tf_computation (FunctionType (Some (to_type [int32, int32])) int32)"

definition ex_merge :: computation where
  "ex_merge = tf_computation (FunctionType (Some (to_type [int32, int32])) int32)"

definition ex_report :: computation where
  "ex_report = tf_computation (FunctionType (Some int32) int32)"

definition ex_bitwidth :: computation where
  "ex_bitwidth = tf_computation (FunctionType None int32)"

definition ex_update :: computation where
  "ex_update = tf_computation
     (FunctionType (Some (to_type [int32, to_type [int32, int32]]))
        (to_type [int32, to_type []]))"

text \<open>A \<open>zero\<close> that takes an argument.\<close>

definition ex_zero_unary :: computation where
  "ex_zero_unary = tf_computation (FunctionType (Some int32) int32)"

text \<open>A \<open>work\<close> whose result has a one-element struct in its first position.\<close>

definition ex_work_short :: computation where
  "ex_work_short = tf_computation
     (FunctionType (Some (to_type [SequenceType int32, int32]))
        (to_type [to_type [int32], to_type []]))"

text \<open>
  Handles that are not plain TensorFlow, handles whose descriptor is \<open>None\<close>, and handles
  that have no attribute \<open>_computation_proto\<close> at all.
\<close>

definition as_lambda :: "computation \<Rightarrow> computation" where
  "as_lambda c = c \<lparr> computation_proto := Computation_pb (Some ''lambda'') \<rparr>"

definition without_proto :: "computation \<Rightarrow> computation" where
  "without_proto c = c \<lparr> computation_proto := PyNone \<rparr>"

definition without_attribute :: "computation \<Rightarrow> computation" where
  "without_attribute c = c \<lparr> computation_proto := NoAttribute \<rparr>"

section \<open>Running the statements\<close>

lemma bind_exc_simps [simp]:
  "bind_exc (Inl e) f = Inl e"
  "bind_exc (Inr x) f = f x"
  by (simp_all add: bind_exc_def)

lemma bind_exc_ok: "bind_exc m f = Inr y \<longleftrightarrow> (\<exists>x. m = Inr x \<and> f x = Inr y)"
  by (cases m) simp_all

lemma run_ok: "run cs = Inr () \<longleftrightarrow> (\<forall>c\<in>set cs. c = Inr ())"
  by (induction cs rule: run.induct) auto

lemma run_first:
  "run cs = Inl e \<longleftrightarrow> (\<exists>n<length cs. cs ! n = Inl e \<and> (\<forall>k<n. cs ! k = Inr ()))"
proof (induction cs rule: run.induct)
  case 1
  then show ?case by simp
next
  case (2 e' rest)
  show ?case
  proof
    assume "run (Inl e' # rest) = Inl e"
    then have "e' = e" by simp
    then have "(Inl e' # rest) ! 0 = Inl e \<and> (\<forall>k<0. (Inl e' # rest) ! k = Inr ())" by simp
    then show "\<exists>n<length (Inl e' # rest). (Inl e' # rest) ! n = Inl e \<and> (\<forall>k<n. (Inl e' # rest) ! k = Inr ())"
      by (intro exI [of _ 0]) simp
  next
    assume "\<exists>n<length (Inl e' # rest). (Inl e' # rest) ! n = Inl e \<and> (\<forall>k<n. (Inl e' # rest) ! k = Inr ())"
    then obtain n where n: "(Inl e' # rest) ! n = Inl e" "\<forall>k<n. (Inl e' # rest) ! k = Inr ()" by blast
    have "n = 0"
    proof (rule ccontr)
      assume "n \<noteq> 0"
      then have "(Inl e' # rest) ! 0 = Inr ()" using n(2) by blast
      then show False by simp
    qed
    with n(1) show "run (Inl e' # rest) = Inl e" by simp
  qed
next
  case (3 u rest)
  show ?case
  proof
    assume "run (Inr u # rest) = Inl e"
    then have "run rest = Inl e" by simp
    with 3 obtain n where n: "n < length rest" "rest ! n = Inl e" "\<forall>k<n. rest ! k = Inr ()" by blast
    have "\<forall>k<Suc n. (Inr u # rest) ! k = Inr ()"
      using n(3) by (auto simp: nth_Cons split: nat.splits)
    with n(1,2) show "\<exists>n<length (Inr u # rest). (Inr u # rest) ! n = Inl e \<and> (\<forall>k<n. (Inr u # rest) ! k = Inr ())"
      by (intro exI [of _ "Suc n"]) simp
  next
    assume "\<exists>n<length (Inr u # rest). (Inr u # rest) ! n = Inl e \<and> (\<forall>k<n. (Inr u # rest) ! k = Inr ())"
    then obtain n where n: "n < length (Inr u # rest)" "(Inr u # rest) ! n = Inl e" "\<forall>k<n. (Inr u # rest) ! k = Inr ()" by blast
    then obtain m where m: "n = Suc m" by (cases n) auto
    have "\<forall>k<m. rest ! k = Inr ()"
    proof (intro allI impI)
      fix k assume "k < m"
      then have "Suc k < n" using m by simp
      then have "(Inr u # rest) ! Suc k = Inr ()" using n(3) by blast
      then show "rest ! k = Inr ()" by simp
    qed
    with n(1,2) m have "\<exists>n<length rest. rest ! n = Inl e \<and> (\<forall>k<n. rest ! k = Inr ())"
      by (intro exI [of _ m]) simp
    with 3 show "run (Inr u # rest) = Inl e" by simp
  qed
qed

lemma check_computation_ok: "check_computation l c = Inr () \<longleftrightarrow> native_kernel c"
  by (cases "computation_proto c")
     (simp_all add: check_computation_def getattr_computation_proto_def native_kernel_def)

lemma check_computations_ok:
  "check_computations xs = Inr () \<longleftrightarrow> (\<forall>x\<in>set xs. native_kernel (snd x))"
  by (induction xs rule: check_computations.induct)
     (auto simp: bind_exc_ok check_computation_ok)

lemma check_prepare_parameter_ok:
  "check_prepare_parameter i p = Inr () \<longleftrightarrow> I1 i p"
  by (cases "type_signature i"; cases "type_signature p")
     (simp_all add: check_prepare_parameter_def I1_def sig_result_def sig_parameter_def)

lemma check_work_parameter_ok:
  "check_work_parameter_shape w = Inr () \<and> check_work_parameter_second p w = Inr () \<longleftrightarrow> I2 p w"
  by (cases "type_signature w"; cases "type_signature p")
     (auto simp: check_work_parameter_shape_def check_work_parameter_second_def I2_def
        sig_result_def sig_parameter_def elements_def
        split: option.splits ty.splits list.splits)


lemma check_work_result_ok: "check_work_result_shape w = Inr () \<longleftrightarrow> I3 w"
  by (cases "type_signature w")
     (auto simp: check_work_result_shape_def I3_def sig_result_def elements_def
        split: ty.splits list.splits)

lemma getitem_element: "getitem t i = Inr x \<longleftrightarrow> element t i = Some x"
  by (cases "(t, i)" rule: getitem.cases) (auto simp: element_def elements_def)

lemma result_sig: "result (type_signature c) = Inr r \<longleftrightarrow> sig_result c = Some r"
  by (cases "type_signature c") (simp_all add: sig_result_def)

lemma parameter_sig_Some:
  "parameter (type_signature c) = Inr (Some p) \<longleftrightarrow> sig_parameter c = Some p"
  by (cases "type_signature c") (simp_all add: sig_parameter_def)

lemma check_assignable_from_ok:
  "check_assignable_from A t s = Inr () \<longleftrightarrow> (\<exists>x. t = Some x \<and> A x s)"
  by (simp add: check_assignable_from_def split: option.splits)

lemma check_accumulate_ok:
  "check_zero z = Inr () \<and> check_accumulate_shape a = Inr () \<and>
   check_accumulate_zero A z a = Inr () \<and> check_accumulate_update w a = Inr ()
   \<longleftrightarrow> I5 A w z a"
  by (cases "type_signature z"; cases "type_signature a"; cases "type_signature w")
     (auto simp: check_zero_def check_accumulate_shape_def check_accumulate_zero_def
        check_accumulate_update_def check_type_FunctionType_def check_len_def
        check_assignable_from_def I5_def work_update_def
        sig_result_def sig_parameter_def elements_def element_def bind_exc_ok
        split: option.splits ty.splits list.splits if_splits)


lemma check_accumulate_result_ok: "check_accumulate_result A a = Inr () \<longleftrightarrow> I6 A a"
  by (cases "type_signature a")
     (auto simp: check_accumulate_result_def check_assignable_from_def I6_def
        sig_result_def sig_parameter_def elements_def element_def bind_exc_ok
        split: option.splits ty.splits list.splits if_splits)

lemma check_merge_ok:
  "check_merge_shape m = Inr () \<and> check_merge_accumulate A 0 a m = Inr () \<and>
   check_merge_accumulate A 1 a m = Inr () \<and> check_merge_result A m = Inr ()
   \<longleftrightarrow> I7 A a m"
  by (cases "type_signature m"; cases "type_signature a")
     (auto simp: check_merge_shape_def check_merge_accumulate_def check_merge_result_def
        check_type_FunctionType_def check_len_def check_assignable_from_def I7_def
        sig_result_def sig_parameter_def elements_def bind_exc_ok
        split: option.splits ty.splits list.splits if_splits)

lemma check_report_ok: "check_report A m r = Inr () \<longleftrightarrow> I8 A m r"
  by (cases "type_signature m"; cases "type_signature r")
     (auto simp: check_report_def check_type_FunctionType_def check_assignable_from_def
        I8_def sig_result_def sig_parameter_def split: option.splits)

lemma check_bitwidth_ok: "check_bitwidth b = Inr () \<longleftrightarrow> I9 b"
  by (simp add: check_bitwidth_def check_type_FunctionType_def I9_def)

lemma expected_update_parameter_type_ok:
  "expected_update_parameter_type i w r = Inr e \<longleftrightarrow>
   (\<exists>s t b. sig_result i = Some s \<and> sig_result r = Some t \<and> work_side_output w = Some b \<and>
      e = NamedTupleType [(None, s), (None, NamedTupleType [(None, t), (None, b)])])"
proof -
  have nested: "work_side_output w = Some b \<longleftrightarrow>
      (\<exists>x y. sig_result w = Some x \<and> element (Some x) 0 = Some y \<and> element (Some y) 1 = Some b)"
    for b
    unfolding work_side_output_def
    by (cases "sig_result w"; cases "element (sig_result w) 0")
       (auto simp: element_def elements_def)
  show ?thesis
    unfolding nested
    by (auto simp: expected_update_parameter_type_def bind_exc_ok result_sig getitem_element
        to_type_def)
qed

lemma check_update_parameter_ok: "check_update_parameter i w r u = Inr () \<longleftrightarrow> I10 i w r u"
  by (cases "type_signature u")
     (auto simp: check_update_parameter_def bind_exc_ok expected_update_parameter_type_ok
        I10_def sig_parameter_def split: option.splits)

lemma check_update_result_ok:
  "check_update_result_shape u = Inr () \<and> check_update_result_first i u = Inr () \<longleftrightarrow> I11 i u"
  by (cases "type_signature u"; cases "type_signature i")
     (auto simp: check_update_result_shape_def check_update_result_first_def I11_def
        sig_result_def elements_def split: ty.splits list.splits)

lemma validation_ok:
  "run (validation A i p w z a m r b u) = Inr () \<longleftrightarrow>
   I1 i p \<and> I2 p w \<and> I3 w \<and> I5 A w z a \<and> I6 A a \<and> I7 A a m \<and> I8 A m r \<and> I9 b \<and>
   I10 i w r u \<and> I11 i u \<and> I12 i p w z a m r b u"
proof -
  have "run (validation A i p w z a m r b u) = Inr () \<longleftrightarrow>
    I12 i p w z a m r b u \<and>
    check_prepare_parameter i p = Inr () \<and>
    (check_work_parameter_shape w = Inr () \<and> check_work_parameter_second p w = Inr ()) \<and>
    check_work_result_shape w = Inr () \<and>
    (check_zero z = Inr () \<and> check_accumulate_shape a = Inr () \<and>
     check_accumulate_zero A z a = Inr () \<and> check_accumulate_update w a = Inr ()) \<and>
    check_accumulate_result A a = Inr () \<and>
    (check_merge_shape m = Inr () \<and> check_merge_accumulate A 0 a m = Inr () \<and>
     check_merge_accumulate A 1 a m = Inr () \<and> check_merge_result A m = Inr ()) \<and>
    check_report A m r = Inr () \<and>
    check_bitwidth b = Inr () \<and>
    check_update_parameter i w r u = Inr () \<and>
    (check_update_result_shape u = Inr () \<and> check_update_result_first i u = Inr ())"
    unfolding run_ok validation_def I12_def
    by (simp add: check_computations_ok del: check_computations.simps)
  then show ?thesis
    unfolding check_prepare_parameter_ok check_work_parameter_ok check_work_result_ok
      check_accumulate_ok check_accumulate_result_ok check_merge_ok check_report_ok
      check_bitwidth_ok check_update_parameter_ok check_update_result_ok
    by blast
qed

lemma init_Inr:
  "CanonicalForm_init A i p w z a m r b u = Inr cf \<longleftrightarrow>
   run (validation A i p w z a m r b u) = Inr () \<and>
   cf = \<lparr> self_initialize = i, self_prepare = p, self_work = w, self_zero = z,
          self_accumulate = a, self_merge = m, self_report = r, self_bitwidth = b,
          self_update = u \<rparr>"
  by (cases "run (validation A i p w z a m r b u)") (auto simp: CanonicalForm_init_def)

lemma init_Inl:
  "CanonicalForm_init A i p w z a m r b u = Inl e \<longleftrightarrow>
   run (validation A i p w z a m r b u) = Inl e"
  by (cases "run (validation A i p w z a m r b u)") (auto simp: CanonicalForm_init_def)

lemma constructed_iff:
  "constructed (CanonicalForm_init A i p w z a m r b u) \<longleftrightarrow>
   I1 i p \<and> I2 p w \<and> I3 w \<and> I5 A w z a \<and> I6 A a \<and> I7 A a m \<and> I8 A m r \<and> I9 b \<and>
   I10 i w r u \<and> I11 i u \<and> I12 i p w z a m r b u"
  unfolding validation_ok [symmetric]
  by (cases "run (validation A i p w z a m r b u)") (auto simp: CanonicalForm_init_def constructed_def)

text \<open>
  The loop stops at the first handle that is not a plain TensorFlow kernel, with the
  outcome of the per-handle checks on that handle, and the constructor with it.
\<close>

lemma check_computations_find:
  "find (\<lambda>c. \<not> native_kernel c) (map snd xs) = Some c \<Longrightarrow>
   \<exists>l. check_computations xs = check_computation l c"
proof (induction xs rule: check_computations.induct)
  case 1
  then show ?case by simp
next
  case (2 label handle rest)
  show ?case
  proof (cases "native_kernel handle")
    case True
    then have "check_computation label handle = Inr ()"
      by (simp add: check_computation_ok)
    with 2 True show ?thesis by simp
  next
    case False
    with 2(2) have "c = handle" by simp
    moreover from False have "check_computation label handle \<noteq> Inr ()"
      by (simp add: check_computation_ok)
    then obtain e where "check_computation label handle = Inl e"
      by (cases "check_computation label handle") auto
    ultimately show ?thesis by (intro exI [of _ label]) simp
  qed
qed

lemma find_Some_holds: "find P xs = Some x \<Longrightarrow> P x \<and> x \<in> set xs"
  by (induction xs) (auto split: if_splits)

lemma init_loop_error:
  "check_computations
     [(''initialize'', i), (''prepare'', p), (''work'', w), (''zero'', z), (''accumulate'', a),
      (''merge'', m), (''report'', r), (''bitwidth'', b), (''update'', u)] = Inl e \<Longrightarrow>
   CanonicalForm_init A i p w z a m r b u = Inl e"
  by (simp add: CanonicalForm_init_def validation_def del: check_computations.simps)

lemma first_failing_handle:
  assumes "find (\<lambda>c. \<not> native_kernel c) [i, p, w, z, a, m, r, b, u] = Some c"
    and "\<And>l. check_computation l c = Inl e"
  shows "CanonicalForm_init A i p w z a m r b u = Inl e"
proof -
  have "[i, p, w, z, a, m, r, b, u] =
    map snd [(''initialize'', i), (''prepare'', p), (''work'', w), (''zero'', z),
      (''accumulate'', a), (''merge'', m), (''report'', r), (''bitwidth'', b), (''update'', u)]"
    by simp
  with assms(1) obtain l where
    "check_computations [(''initialize'', i), (''prepare'', p), (''work'', w), (''zero'', z),
      (''accumulate'', a), (''merge'', m), (''report'', r), (''bitwidth'', b), (''update'', u)]
     = check_computation l c"
    using check_computations_find by metis
  with assms(2) show ?thesis by (simp add: init_loop_error del: check_computations.simps)
qed

text \<open>
  The checks do not read the type signature of a handle, and what they raise on a handle
  is decided by what it holds under \<open>_computation_proto\<close>.
\<close>

lemma check_computation_signature:
  "check_computation l (c \<lparr> type_signature := t \<rparr>) = check_computation l c"
  by (simp add: check_computation_def getattr_computation_proto_def)

lemma check_computation_message:
  "computation_proto c = Computation_pb k \<Longrightarrow> \<not> native_kernel c \<Longrightarrow>
   check_computation l c =
     Inl (TypeError,
       Format ''Expected all computations supplied as arguments to be plain TensorFlow, found {}.''
         [StrArg k])"
  by (simp add: check_computation_def getattr_computation_proto_def native_kernel_def)

lemma check_computation_no_message:
  "computation_proto c = PyNone \<or> computation_proto c = OtherObject \<Longrightarrow>
   check_computation l c =
     Inl (AssertionError, Format ''Cannot find the embedded computation definition.'' [])"
  by (auto simp: check_computation_def getattr_computation_proto_def)

text \<open>
  The method on \<open>self\<close>: the checks leave \<open>self\<close> alone, and the assignments are
  reached only when all of them have passed.
\<close>

lemma exec_checks:
  "exec (map Check cs @ rest) self =
     (case run cs of Inl e \<Rightarrow> (Some e, self) | Inr u \<Rightarrow> exec rest self)"
  by (induction cs rule: run.induct) simp_all

lemma init_on_self_run:
  "init_on_self A i p w z a m r b u self =
     (case run (validation A i p w z a m r b u) of
        Inl e \<Rightarrow> (Some e, self)
      | Inr x \<Rightarrow>
          (None, self \<lparr> attr_initialize := Some i, attr_prepare := Some p, attr_work := Some w,
                   attr_zero := Some z, attr_accumulate := Some a, attr_merge := Some m,
                   attr_report := Some r, attr_bitwidth := Some b, attr_update := Some u \<rparr>))"
  by (simp add: init_on_self_def init_statements_def exec_checks split: sum.splits)

lemma run_Cons: "run (x # xs) = (case x of Inl e \<Rightarrow> Inl e | Inr u \<Rightarrow> run xs)"
  by (cases x) simp_all

lemma run_Cons_cong: "run xs = run ys \<Longrightarrow> run (x # xs) = run (x # ys)"
  by (cases x) simp_all

lemma run_group2: "run (run [a, b] # ys) = run (a # b # ys)"
  by (cases a; cases b) simp_all

lemma run_group4: "run (run [a, b, c, d] # ys) = run (a # b # c # d # ys)"
  by (cases a; cases b; cases c; cases d) simp_all

lemma validation_by_invariant:
  "run (validation A i p w z a m r b u) = run (map snd (invariant_checks A i p w z a m r b u))"
  unfolding validation_def invariant_checks_def list.map snd_conv
  by ((rule run_Cons_cong | subst run_group2 | subst run_group4)+) (rule refl)

lemma invariant_checks_sound:
  "g \<in> set (invariant_checks A i p w z a m r b u) \<Longrightarrow> snd g = Inr () \<longleftrightarrow> fst g"
proof -
  have loop: "check_computations
      [(''initialize'', i), (''prepare'', p), (''work'', w), (''zero'', z), (''accumulate'', a),
       (''merge'', m), (''report'', r), (''bitwidth'', b), (''update'', u)] = Inr () \<longleftrightarrow>
      I12 i p w z a m r b u"
    by (simp add: check_computations_ok I12_def del: check_computations.simps)
  have i2: "run [check_work_parameter_shape w, check_work_parameter_second p w] = Inr ()
      \<longleftrightarrow> I2 p w"
    using check_work_parameter_ok [of w p] by (simp add: run_ok)
  have i5: "run [check_zero z, check_accumulate_shape a, check_accumulate_zero A z a,
      check_accumulate_update w a] = Inr () \<longleftrightarrow> I5 A w z a"
    using check_accumulate_ok [of z a A w] by (simp add: run_ok)
  have i7: "run [check_merge_shape m, check_merge_accumulate A 0 a m,
      check_merge_accumulate A 1 a m, check_merge_result A m] = Inr () \<longleftrightarrow> I7 A a m"
    using check_merge_ok [of m A a] by (simp add: run_ok)
  have i11: "run [check_update_result_shape u, check_update_result_first i u] = Inr ()
      \<longleftrightarrow> I11 i u"
    using check_update_result_ok [of u i] by (simp add: run_ok)
  assume "g \<in> set (invariant_checks A i p w z a m r b u)"
  then show ?thesis
    unfolding invariant_checks_def
    by (auto simp: loop i2 i5 i7 i11 check_prepare_parameter_ok check_work_result_ok
        check_accumulate_result_ok check_report_ok check_bitwidth_ok
        check_update_parameter_ok
        simp del: run.simps check_computations.simps One_nat_def)
qed

lemma first_unmet:
  assumes "\<And>g. g \<in> set G \<Longrightarrow> snd g = Inr () \<longleftrightarrow> fst g"
  shows "run (map snd G) = Inl e \<longleftrightarrow>
         (\<exists>n<length G. \<not> fst (G ! n) \<and> snd (G ! n) = Inl e \<and> (\<forall>k<n. fst (G ! k)))"
proof -
  have ok: "snd (G ! k) = Inr () \<longleftrightarrow> fst (G ! k)" if "k < length G" for k
    using assms [of "G ! k"] that by simp
  show ?thesis
  proof
    assume "run (map snd G) = Inl e"
    then obtain n where n: "n < length G" "map snd G ! n = Inl e"
      "\<forall>k<n. map snd G ! k = Inr ()"
      unfolding run_first by auto
    from n(1,2) have e: "snd (G ! n) = Inl e" by simp
    with ok [OF n(1)] have "\<not> fst (G ! n)" by auto
    moreover have "\<forall>k<n. fst (G ! k)"
    proof (intro allI impI)
      fix k assume "k < n"
      with n(1,3) have "k < length G" "snd (G ! k) = Inr ()" by auto
      then show "fst (G ! k)" using ok by blast
    qed
    ultimately show "\<exists>n<length G. \<not> fst (G ! n) \<and> snd (G ! n) = Inl e \<and> (\<forall>k<n. fst (G ! k))"
      using n(1) e by blast
  next
    assume "\<exists>n<length G. \<not> fst (G ! n) \<and> snd (G ! n) = Inl e \<and> (\<forall>k<n. fst (G ! k))"
    then obtain n where n: "n < length G" "snd (G ! n) = Inl e" "\<forall>k<n. fst (G ! k)"
      by blast
    have "\<forall>k<n. map snd G ! k = Inr ()"
    proof (intro allI impI)
      fix k assume "k < n"
      with n(1,3) have "k < length G" "fst (G ! k)" by auto
      then show "map snd G ! k = Inr ()" using ok by simp
    qed
    with n(1,2) have "\<exists>n<length (map snd G). map snd G ! n = Inl e \<and>
        (\<forall>k<n. map snd G ! k = Inr ())"
      by (intro exI [of _ n]) simp
    then show "run (map snd G) = Inl e" unfolding run_first .
  qed
qed

lemma all_met:
  assumes "\<And>g. g \<in> set G \<Longrightarrow> snd g = Inr () \<longleftrightarrow> fst g"
  shows "run (map snd G) = Inr () \<longleftrightarrow> (\<forall>g\<in>set G. fst g)"
  unfolding run_ok using assms by auto

section \<open>The claims\<close>

subsection \<open>C1: construction and the invariants\<close>

text \<open>
  C1 states that construction succeeds if and only if all of I1 to I12 hold.  The class
  documents \<open>zero\<close> as a computation of type \<open>( -> A)\<close>, and the constructor promises
  \<open>TypeError\<close> for invalid types, but line 332 only checks that the signature of \<open>zero\<close>
  is a function type.  With a \<open>zero\<close> of type \<open>(int32 -> int32)\<close> in the otherwise
  well-formed round, I4 fails and the constructor returns a \<open>CanonicalForm\<close>: at this
  input the code does not do what C1 says.
\<close>

theorem C1_unary_zero_breaks_equivalence:
  "\<not> (constructed (CanonicalForm_init (=) ex_initialize ex_prepare ex_work ex_zero_unary
          ex_accumulate ex_merge ex_report ex_bitwidth ex_update) \<longleftrightarrow>
      I1 ex_initialize ex_prepare \<and> I2 ex_prepare ex_work \<and> I3 ex_work \<and>
      I4 ex_zero_unary \<and> I5 (=) ex_work ex_zero_unary ex_accumulate \<and>
      I6 (=) ex_accumulate \<and> I7 (=) ex_accumulate ex_merge \<and> I8 (=) ex_merge ex_report \<and>
      I9 ex_bitwidth \<and> I10 ex_initialize ex_work ex_report ex_update \<and>
      I11 ex_initialize ex_update \<and>
      I12 ex_initialize ex_prepare ex_work ex_zero_unary ex_accumulate ex_merge ex_report
        ex_bitwidth ex_update)"
  by code_simp

subsection \<open>C2: the kind check comes first\<close>

text \<open>
  C2 states that every input in which some handle's kind is not a TensorFlow kernel fails
  with the kind-mismatch error.  In the well-formed round with \<open>zero\<close> a lambda and
  \<open>initialize\<close> holding \<open>None\<close> for its descriptor, a handle's kind is not TensorFlow,
  and the loop stops earlier, at \<open>initialize\<close>, with \<open>AssertionError\<close>.
\<close>

theorem C2_counterexample:
  "CanonicalForm_init (=) (without_proto ex_initialize) ex_prepare ex_work (as_lambda ex_zero)
     ex_accumulate ex_merge ex_report ex_bitwidth ex_update =
   Inl (AssertionError, Format ''Cannot find the embedded computation definition.'' [])"
  by code_simp

text \<open>
  C2, amended: for every input in which the first handle, in the order of the loop, that
  is not a TensorFlow kernel holds a \<open>Computation\<close> message (so that it has a kind, and
  this kind is not TensorFlow), construction fails with the kind-mismatch \<open>TypeError\<close>
  carrying that kind, and it does so whatever the type signatures of the nine handles
  are: the loop over the kinds runs before any statement that reads a type signature.
  Nothing is asked of the handles after that first one.
\<close>

theorem C2_kind_check_first:
  assumes "find (\<lambda>c. \<not> native_kernel c)
             [initialize, prepare, work, zero, accumulate, merge, report, bitwidth, update]
           = Some c"
    and "computation_proto c = Computation_pb which_comp"
  shows "which_comp \<noteq> Some ''tensorflow'' \<and>
         (\<forall>t1 t2 t3 t4 t5 t6 t7 t8 t9.
            CanonicalForm_init assignable_from
              (initialize \<lparr> type_signature := t1 \<rparr>) (prepare \<lparr> type_signature := t2 \<rparr>)
              (work \<lparr> type_signature := t3 \<rparr>) (zero \<lparr> type_signature := t4 \<rparr>)
              (accumulate \<lparr> type_signature := t5 \<rparr>) (merge \<lparr> type_signature := t6 \<rparr>)
              (report \<lparr> type_signature := t7 \<rparr>) (bitwidth \<lparr> type_signature := t8 \<rparr>)
              (update \<lparr> type_signature := t9 \<rparr>) =
            Inl (TypeError, Format ''Expected all computations supplied as arguments to be plain TensorFlow, found {}.''
              [StrArg which_comp]))"
proof
  from assms(1) have bad: "\<not> native_kernel c"
    by (rule find_Some_holds [THEN conjunct1])
  with assms(2) show "which_comp \<noteq> Some ''tensorflow''"
    by (auto simp: native_kernel_def)
  have "[initialize, prepare, work, zero, accumulate, merge, report, bitwidth, update] =
    map snd [(''initialize'', initialize), (''prepare'', prepare), (''work'', work),
      (''zero'', zero), (''accumulate'', accumulate), (''merge'', merge), (''report'', report),
      (''bitwidth'', bitwidth), (''update'', update)]"
    by simp
  with assms(1) obtain l where
    "check_computations [(''initialize'', initialize), (''prepare'', prepare), (''work'', work),
      (''zero'', zero), (''accumulate'', accumulate), (''merge'', merge), (''report'', report),
      (''bitwidth'', bitwidth), (''update'', update)] = check_computation l c"
    using check_computations_find by metis
  then have loop:
    "check_computations [(''initialize'', initialize), (''prepare'', prepare), (''work'', work),
      (''zero'', zero), (''accumulate'', accumulate), (''merge'', merge), (''report'', report),
      (''bitwidth'', bitwidth), (''update'', update)] =
     Inl (TypeError, Format ''Expected all computations supplied as arguments to be plain TensorFlow, found {}.''
       [StrArg which_comp])"
    using check_computation_message [OF assms(2) bad] by simp
  show "\<forall>t1 t2 t3 t4 t5 t6 t7 t8 t9.
            CanonicalForm_init assignable_from
              (initialize \<lparr> type_signature := t1 \<rparr>) (prepare \<lparr> type_signature := t2 \<rparr>)
              (work \<lparr> type_signature := t3 \<rparr>) (zero \<lparr> type_signature := t4 \<rparr>)
              (accumulate \<lparr> type_signature := t5 \<rparr>) (merge \<lparr> type_signature := t6 \<rparr>)
              (report \<lparr> type_signature := t7 \<rparr>) (bitwidth \<lparr> type_signature := t8 \<rparr>)
              (update \<lparr> type_signature := t9 \<rparr>) =
            Inl (TypeError, Format ''Expected all computations supplied as arguments to be plain TensorFlow, found {}.''
              [StrArg which_comp])"
  proof (intro allI, rule init_loop_error)
    fix t1 t2 t3 t4 t5 t6 t7 t8 t9
    have "check_computations
        [(''initialize'', initialize \<lparr> type_signature := t1 \<rparr>),
         (''prepare'', prepare \<lparr> type_signature := t2 \<rparr>),
         (''work'', work \<lparr> type_signature := t3 \<rparr>),
         (''zero'', zero \<lparr> type_signature := t4 \<rparr>),
         (''accumulate'', accumulate \<lparr> type_signature := t5 \<rparr>),
         (''merge'', merge \<lparr> type_signature := t6 \<rparr>),
         (''report'', report \<lparr> type_signature := t7 \<rparr>),
         (''bitwidth'', bitwidth \<lparr> type_signature := t8 \<rparr>),
         (''update'', update \<lparr> type_signature := t9 \<rparr>)] =
      check_computations [(''initialize'', initialize), (''prepare'', prepare),
        (''work'', work), (''zero'', zero), (''accumulate'', accumulate), (''merge'', merge),
        (''report'', report), (''bitwidth'', bitwidth), (''update'', update)]"
      by (simp add: check_computation_signature)
    with loop show "check_computations
        [(''initialize'', initialize \<lparr> type_signature := t1 \<rparr>),
         (''prepare'', prepare \<lparr> type_signature := t2 \<rparr>),
         (''work'', work \<lparr> type_signature := t3 \<rparr>),
         (''zero'', zero \<lparr> type_signature := t4 \<rparr>),
         (''accumulate'', accumulate \<lparr> type_signature := t5 \<rparr>),
         (''merge'', merge \<lparr> type_signature := t6 \<rparr>),
         (''report'', report \<lparr> type_signature := t7 \<rparr>),
         (''bitwidth'', bitwidth \<lparr> type_signature := t8 \<rparr>),
         (''update'', update \<lparr> type_signature := t9 \<rparr>)] =
      Inl (TypeError, Format ''Expected all computations supplied as arguments to be plain TensorFlow, found {}.''
        [StrArg which_comp])"
      by simp
  qed
qed

text \<open>
  At the well-formed round with \<open>zero\<close> a lambda and, after it, \<open>merge\<close> holding \<open>None\<close>
  for its descriptor: the type signatures satisfy I1 to I11, and the kind of \<open>zero\<close> is
  reported.
\<close>

theorem C2_kind_check_first_witness:
  "find (\<lambda>c. \<not> native_kernel c)
     [ex_initialize, ex_prepare, ex_work, as_lambda ex_zero, ex_accumulate,
      without_proto ex_merge, ex_report, ex_bitwidth, ex_update] = Some (as_lambda ex_zero) \<and>
   computation_proto (as_lambda ex_zero) = Computation_pb (Some ''lambda'') \<and>
   I1 ex_initialize ex_prepare \<and> I2 ex_prepare ex_work \<and> I3 ex_work \<and>
   I4 (as_lambda ex_zero) \<and> I5 (=) ex_work (as_lambda ex_zero) ex_accumulate \<and>
   I6 (=) ex_accumulate \<and> I7 (=) ex_accumulate (without_proto ex_merge) \<and>
   I8 (=) (without_proto ex_merge) ex_report \<and> I9 ex_bitwidth \<and>
   I10 ex_initialize ex_work ex_report ex_update \<and> I11 ex_initialize ex_update \<and>
   Some ''lambda'' \<noteq> Some ''tensorflow'' \<and>
   CanonicalForm_init (=) ex_initialize ex_prepare ex_work (as_lambda ex_zero) ex_accumulate
     (without_proto ex_merge) ex_report ex_bitwidth ex_update =
   Inl (TypeError, Format ''Expected all computations supplied as arguments to be plain TensorFlow, found {}.''
     [StrArg (Some ''lambda'')])"
proof -
  have f: "find (\<lambda>c. \<not> native_kernel c)
     [ex_initialize, ex_prepare, ex_work, as_lambda ex_zero, ex_accumulate,
      without_proto ex_merge, ex_report, ex_bitwidth, ex_update] = Some (as_lambda ex_zero)"
    by code_simp
  have k: "computation_proto (as_lambda ex_zero) = Computation_pb (Some ''lambda'')"
    by code_simp
  have t: "I1 ex_initialize ex_prepare \<and> I2 ex_prepare ex_work \<and> I3 ex_work \<and>
   I4 (as_lambda ex_zero) \<and> I5 (=) ex_work (as_lambda ex_zero) ex_accumulate \<and>
   I6 (=) ex_accumulate \<and> I7 (=) ex_accumulate (without_proto ex_merge) \<and>
   I8 (=) (without_proto ex_merge) ex_report \<and> I9 ex_bitwidth \<and>
   I10 ex_initialize ex_work ex_report ex_update \<and> I11 ex_initialize ex_update"
    by code_simp
  note C2_kind_check_first [OF f k, of "(=)"]
  then have "Some ''lambda'' \<noteq> Some ''tensorflow''" and
    "CanonicalForm_init (=)
       (ex_initialize \<lparr> type_signature := type_signature ex_initialize \<rparr>)
       (ex_prepare \<lparr> type_signature := type_signature ex_prepare \<rparr>)
       (ex_work \<lparr> type_signature := type_signature ex_work \<rparr>)
       (as_lambda ex_zero \<lparr> type_signature := type_signature (as_lambda ex_zero) \<rparr>)
       (ex_accumulate \<lparr> type_signature := type_signature ex_accumulate \<rparr>)
       (without_proto ex_merge \<lparr> type_signature := type_signature (without_proto ex_merge) \<rparr>)
       (ex_report \<lparr> type_signature := type_signature ex_report \<rparr>)
       (ex_bitwidth \<lparr> type_signature := type_signature ex_bitwidth \<rparr>)
       (ex_update \<lparr> type_signature := type_signature ex_update \<rparr>) =
     Inl (TypeError, Format ''Expected all computations supplied as arguments to be plain TensorFlow, found {}.''
       [StrArg (Some ''lambda'')])"
    by blast+
  with f k t show ?thesis by simp
qed

subsection \<open>C3: the parameter of zero\<close>

text \<open>
  C3 states that every accepted input has a \<open>zero\<close> without parameter, as the class
  documents it (\<open>( -> A)\<close>, lines 197 to 202).  The constructor never looks at the
  parameter of \<open>zero\<close>: the well-formed round with a \<open>zero\<close> of type \<open>(int32 -> int32)\<close>
  is accepted.
\<close>

theorem C3_unary_zero_accepted:
  "constructed (CanonicalForm_init (=) ex_initialize ex_prepare ex_work ex_zero_unary
     ex_accumulate ex_merge ex_report ex_bitwidth ex_update) \<and>
   parameter (type_signature ex_zero_unary) = Inr (Some int32)"
  by code_simp

subsection \<open>C4: subscripts and shape checks\<close>

text \<open>
  C4 states that every subscript is preceded by a check of the shape, so that a struct of
  the wrong arity is reported as a shape mismatch and never as an indexing fault.  The
  first element of the result of \<open>work\<close> is subscripted at lines 340 and 370 without any
  check: when it is the one-element struct \<open><int32>\<close>, in the otherwise well-formed round,
  line 340 passes and line 370 raises \<open>IndexError\<close>.
\<close>

theorem C4_work_result_index_fault:
  "CanonicalForm_init (=) ex_initialize ex_prepare ex_work_short ex_zero ex_accumulate
     ex_merge ex_report ex_bitwidth ex_update = Inl (IndexError, External)"
  by code_simp

subsection \<open>C5: the parameter of update\<close>

text \<open>
  C5: for every accepted input, the parameter of \<open>update\<close> is the unnamed pair of the
  result of \<open>initialize\<close> and of the unnamed pair of the result of \<open>report\<close> and the side
  output of \<open>work\<close>, which is the second element of the first element of the result of
  \<open>work\<close>.  Hence an input whose \<open>update\<close> parameter is any other type is rejected.
\<close>

theorem C5_update_parameter:
  assumes "CanonicalForm_init assignable_from initialize prepare work zero accumulate merge
             report bitwidth update = Inr cf"
  shows "\<exists>s r b y side.
           result (type_signature initialize) = Inr s \<and>
           result (type_signature report) = Inr r \<and>
           result (type_signature work) = Inr (NamedTupleType [b, y]) \<and>
           getitem (Some (snd b)) 1 = Inr side \<and>
           parameter (type_signature update) =
             Inr (Some (NamedTupleType
               [(None, s), (None, NamedTupleType [(None, r), (None, side)])]))"
proof -
  from assms have "constructed (CanonicalForm_init assignable_from initialize prepare
      work zero accumulate merge report bitwidth update)"
    by (simp add: constructed_def)
  then have i3: "I3 work" and i10: "I10 initialize work report update"
    by (simp_all add: constructed_iff)
  from i10 obtain s r side where
    s: "sig_result initialize = Some s" and r: "sig_result report = Some r" and
    side: "work_side_output work = Some side" and
    u: "sig_parameter update =
      Some (NamedTupleType [(None, s), (None, NamedTupleType [(None, r), (None, side)])])"
    by (auto simp: I10_def split: option.splits)
  from i3 obtain b y where w: "sig_result work = Some (NamedTupleType [b, y])"
    by (cases "type_signature work")
       (auto simp: I3_def sig_result_def elements_def split: ty.splits list.splits)
  from side w have "element (Some (snd b)) 1 = Some side"
    by (simp add: work_side_output_def element_def elements_def split: option.splits if_splits)
  with s r w u show ?thesis
    by (auto simp: result_sig parameter_sig_Some getitem_element)
qed

text \<open>At the well-formed round.\<close>

theorem C5_update_parameter_witness:
  "CanonicalForm_init (=) ex_initialize ex_prepare ex_work ex_zero ex_accumulate ex_merge
     ex_report ex_bitwidth ex_update =
   Inr \<lparr> self_initialize = ex_initialize, self_prepare = ex_prepare, self_work = ex_work,
         self_zero = ex_zero, self_accumulate = ex_accumulate, self_merge = ex_merge,
         self_report = ex_report, self_bitwidth = ex_bitwidth, self_update = ex_update \<rparr> \<and>
   (\<exists>s r b y side.
      result (type_signature ex_initialize) = Inr s \<and>
      result (type_signature ex_report) = Inr r \<and>
      result (type_signature ex_work) = Inr (NamedTupleType [b, y]) \<and>
      getitem (Some (snd b)) 1 = Inr side \<and>
      parameter (type_signature ex_update) =
        Inr (Some (NamedTupleType
          [(None, s), (None, NamedTupleType [(None, r), (None, side)])])))"
proof -
  have h: "CanonicalForm_init (=) ex_initialize ex_prepare ex_work ex_zero ex_accumulate
     ex_merge ex_report ex_bitwidth ex_update =
   Inr \<lparr> self_initialize = ex_initialize, self_prepare = ex_prepare, self_work = ex_work,
         self_zero = ex_zero, self_accumulate = ex_accumulate, self_merge = ex_merge,
         self_report = ex_report, self_bitwidth = ex_bitwidth, self_update = ex_update \<rparr>"
    by code_simp
  from h C5_update_parameter [OF h] show ?thesis by blast
qed

subsection \<open>C6: construction is all or nothing\<close>

text \<open>
  C6: run on any object \<open>self\<close>, the method \<open>__init__\<close> ends in one of two ways.  It
  raises an error exactly when one of the invariants it checks is unmet; the error is then
  the one raised by the statements that check the first unmet invariant, in the order of
  the source, \<open>self\<close> is left as it was, with none of the nine attributes assigned, and the
  construction yields this error and no form.  It returns normally exactly when every
  invariant it checks holds; then all nine attributes of \<open>self\<close> hold the handles given,
  and the construction yields the form of these nine handles.
\<close>

theorem C6_construction_atomic:
  "(init_on_self assignable_from initialize prepare work zero accumulate merge report
      bitwidth update self = (Some e, self') \<longleftrightarrow>
    self' = self \<and>
    CanonicalForm_init assignable_from initialize prepare work zero accumulate merge report
      bitwidth update = Inl e \<and>
    (\<exists>n < length (invariant_checks assignable_from initialize prepare work zero accumulate
                    merge report bitwidth update).
       \<not> fst (invariant_checks assignable_from initialize prepare work zero accumulate merge
                report bitwidth update ! n) \<and>
       snd (invariant_checks assignable_from initialize prepare work zero accumulate merge
              report bitwidth update ! n) = Inl e \<and>
       (\<forall>k<n. fst (invariant_checks assignable_from initialize prepare work zero accumulate
                      merge report bitwidth update ! k)))) \<and>
   (init_on_self assignable_from initialize prepare work zero accumulate merge report
      bitwidth update self = (None, self') \<longleftrightarrow>
    self' = self \<lparr> attr_initialize := Some initialize, attr_prepare := Some prepare,
                   attr_work := Some work, attr_zero := Some zero,
                   attr_accumulate := Some accumulate, attr_merge := Some merge,
                   attr_report := Some report, attr_bitwidth := Some bitwidth,
                   attr_update := Some update \<rparr> \<and>
    CanonicalForm_init assignable_from initialize prepare work zero accumulate merge report
      bitwidth update =
      Inr \<lparr> self_initialize = initialize, self_prepare = prepare, self_work = work,
            self_zero = zero, self_accumulate = accumulate, self_merge = merge,
            self_report = report, self_bitwidth = bitwidth, self_update = update \<rparr> \<and>
    (\<forall>g \<in> set (invariant_checks assignable_from initialize prepare work zero accumulate
                 merge report bitwidth update). fst g))"
proof -
  let ?V = "validation assignable_from initialize prepare work zero accumulate merge report
    bitwidth update"
  let ?G = "invariant_checks assignable_from initialize prepare work zero accumulate merge
    report bitwidth update"
  have sound: "snd g = Inr () \<longleftrightarrow> fst g" if "g \<in> set ?G" for g
    using that by (rule invariant_checks_sound)
  have err: "run ?V = Inl e \<longleftrightarrow>
      (\<exists>n<length ?G. \<not> fst (?G ! n) \<and> snd (?G ! n) = Inl e \<and> (\<forall>k<n. fst (?G ! k)))"
    unfolding validation_by_invariant using sound by (rule first_unmet)
  have ok: "run ?V = Inr () \<longleftrightarrow> (\<forall>g\<in>set ?G. fst g)"
    unfolding validation_by_invariant using sound by (rule all_met)
  show ?thesis
    unfolding init_Inl init_Inr err [symmetric] ok [symmetric]
    by (cases "run ?V") (auto simp: init_on_self_run)
qed

text \<open>
  At the well-formed round with \<open>zero\<close> passed in the place of \<open>update\<close>, on an object
  with no attribute assigned: I12, I1 to I3 and I5 to I9 hold, I10 is the first unmet
  invariant, and no attribute is assigned.
\<close>

theorem C6_construction_atomic_witness:
  "init_on_self (=) ex_initialize ex_prepare ex_work ex_zero ex_accumulate ex_merge
     ex_report ex_bitwidth ex_zero unassigned =
   (Some (TypeError,
      Format ''The `update` computation expects an argument of type {}, which does not match the expected {} as implied by the type signatures of `initialize`, `report`, and `work`.''
        [TypeArg None, TypeArg (Some (to_type [int32, to_type [int32, int32]]))]),
    unassigned) \<and>
   CanonicalForm_init (=) ex_initialize ex_prepare ex_work ex_zero ex_accumulate ex_merge
     ex_report ex_bitwidth ex_zero =
   Inl (TypeError,
     Format ''The `update` computation expects an argument of type {}, which does not match the expected {} as implied by the type signatures of `initialize`, `report`, and `work`.''
       [TypeArg None, TypeArg (Some (to_type [int32, to_type [int32, int32]]))]) \<and>
   \<not> I10 ex_initialize ex_work ex_report ex_zero \<and>
   (\<exists>n < length (invariant_checks (=) ex_initialize ex_prepare ex_work ex_zero
                   ex_accumulate ex_merge ex_report ex_bitwidth ex_zero).
      \<not> fst (invariant_checks (=) ex_initialize ex_prepare ex_work ex_zero ex_accumulate
               ex_merge ex_report ex_bitwidth ex_zero ! n) \<and>
      snd (invariant_checks (=) ex_initialize ex_prepare ex_work ex_zero ex_accumulate
             ex_merge ex_report ex_bitwidth ex_zero ! n) =
      Inl (TypeError,
        Format ''The `update` computation expects an argument of type {}, which does not match the expected {} as implied by the type signatures of `initialize`, `report`, and `work`.''
          [TypeArg None, TypeArg (Some (to_type [int32, to_type [int32, int32]]))]) \<and>
      (\<forall>k<n. fst (invariant_checks (=) ex_initialize ex_prepare ex_work ex_zero
                     ex_accumulate ex_merge ex_report ex_bitwidth ex_zero ! k)))"
proof -
  have h: "init_on_self (=) ex_initialize ex_prepare ex_work ex_zero ex_accumulate ex_merge
     ex_report ex_bitwidth ex_zero unassigned =
   (Some (TypeError,
      Format ''The `update` computation expects an argument of type {}, which does not match the expected {} as implied by the type signatures of `initialize`, `report`, and `work`.''
        [TypeArg None, TypeArg (Some (to_type [int32, to_type [int32, int32]]))]),
    unassigned)"
    by code_simp
  have i10: "\<not> I10 ex_initialize ex_work ex_report ex_zero"
    by code_simp
  from h i10 C6_construction_atomic [THEN conjunct1, THEN iffD1, OF h] show ?thesis
    by blast
qed

subsection \<open>C7: the nine lines of the summary\<close>

text \<open>
  C7: for every \<open>CanonicalForm\<close>, every rendering of types and every sink, the summary
  calls the sink on nine lines, in the order initialize, prepare, work, zero, accumulate,
  merge, report, bitwidth, update; each line is the label padded on the right to ten
  characters, a colon, a space, and the rendering of a type signature.
\<close>

theorem C7_summary_nine_lines:
  "summary compact_representation print_fn self out =
     fold print_fn
       [''initialize: '' @ compact_representation (type_signature (self_initialize self)),
        ''prepare   : '' @ compact_representation (type_signature (self_prepare self)),
        ''work      : '' @ compact_representation (type_signature (self_work self)),
        ''zero      : '' @ compact_representation (type_signature (self_zero self)),
        ''accumulate: '' @ compact_representation (type_signature (self_accumulate self)),
        ''merge     : '' @ compact_representation (type_signature (self_merge self)),
        ''report    : '' @ compact_representation (type_signature (self_report self)),
        ''bitwidth  : '' @ compact_representation (type_signature (self_bitwidth self)),
        ''update    : '' @ compact_representation (type_signature (self_initialize self))]
       out \<and>
   map fst (computations self) =
     [''initialize'', ''prepare'', ''work'', ''zero'', ''accumulate'', ''merge'', ''report'',
      ''bitwidth'', ''update''] \<and>
   map (\<lambda>nc. length (ljust 10 (fst nc))) (computations self) =
     [10, 10, 10, 10, 10, 10, 10, 10, 10]"
  by (simp add: summary_def computations_def summary_line_def ljust_def eval_nat_numeral)

subsection \<open>C8: the line labelled update\<close>

text \<open>
  C8: the ninth line of the summary, labelled \<open>update\<close>, renders the type signature of
  \<open>initialize\<close>, and the summary does not change when the \<open>update\<close> handle of the form
  is replaced by any other.
\<close>

theorem C8_update_line_shows_initialize:
  "summary compact_representation (\<lambda>line out. out @ [line]) self [] ! 8 =
     ''update    : '' @ compact_representation (type_signature (self_initialize self)) \<and>
   summary compact_representation print_fn (self \<lparr> self_update := update \<rparr>) out =
     summary compact_representation print_fn self out"
  by (simp add: summary_def computations_def summary_line_def ljust_def eval_nat_numeral)

subsection \<open>C9: what the kind-mismatch error carries\<close>

text \<open>
  C9 states that the kind-mismatch error identifies the stage label and the observed
  kind.  A lambda in the place of \<open>zero\<close> and a lambda in the place of \<open>merge\<close> raise
  the same error: the label of the offending stage cannot be read from it.
\<close>

theorem C9_counterexample:
  "CanonicalForm_init (=) ex_initialize ex_prepare ex_work (as_lambda ex_zero) ex_accumulate
     ex_merge ex_report ex_bitwidth ex_update =
   Inl (TypeError,
     Format ''Expected all computations supplied as arguments to be plain TensorFlow, found {}.''
       [StrArg (Some ''lambda'')]) \<and>
   CanonicalForm_init (=) ex_initialize ex_prepare ex_work ex_zero ex_accumulate
     (as_lambda ex_merge) ex_report ex_bitwidth ex_update =
   Inl (TypeError,
     Format ''Expected all computations supplied as arguments to be plain TensorFlow, found {}.''
       [StrArg (Some ''lambda'')])"
  by code_simp

text \<open>
  C9, amended: when the first handle, in the order of the loop, that is not a TensorFlow
  kernel carries a descriptor, the constructor raises \<open>TypeError\<close> with the fixed
  template and the observed kind of that handle as its only argument; the error does not
  name the stage.
\<close>

theorem C9_kind_mismatch_carries_kind:
  assumes "find (\<lambda>c. \<not> native_kernel c)
             [initialize, prepare, work, zero, accumulate, merge, report, bitwidth, update]
           = Some c"
    and "computation_proto c = Computation_pb which_comp"
  shows "CanonicalForm_init assignable_from initialize prepare work zero accumulate merge
           report bitwidth update =
         Inl (TypeError,
           Format ''Expected all computations supplied as arguments to be plain TensorFlow, found {}.''
             [StrArg which_comp])"
proof (rule first_failing_handle [OF assms(1)])
  from assms(1) have "\<not> native_kernel c" by (rule find_Some_holds [THEN conjunct1])
  with assms(2) show "check_computation l c =
     Inl (TypeError,
           Format ''Expected all computations supplied as arguments to be plain TensorFlow, found {}.''
             [StrArg which_comp])" for l
    by (rule check_computation_message)
qed

text \<open>At the well-formed round with \<open>report\<close> a lambda.\<close>

theorem C9_kind_mismatch_carries_kind_witness:
  "find (\<lambda>c. \<not> native_kernel c)
     [ex_initialize, ex_prepare, ex_work, ex_zero, ex_accumulate, ex_merge,
      as_lambda ex_report, ex_bitwidth, ex_update] = Some (as_lambda ex_report) \<and>
   computation_proto (as_lambda ex_report) = Computation_pb (Some ''lambda'') \<and>
   CanonicalForm_init (=) ex_initialize ex_prepare ex_work ex_zero ex_accumulate ex_merge
     (as_lambda ex_report) ex_bitwidth ex_update =
   Inl (TypeError,
     Format ''Expected all computations supplied as arguments to be plain TensorFlow, found {}.''
       [StrArg (Some ''lambda'')])"
proof -
  have f: "find (\<lambda>c. \<not> native_kernel c)
     [ex_initialize, ex_prepare, ex_work, ex_zero, ex_accumulate, ex_merge,
      as_lambda ex_report, ex_bitwidth, ex_update] = Some (as_lambda ex_report)"
    by code_simp
  have k: "computation_proto (as_lambda ex_report) = Computation_pb (Some ''lambda'')"
    by code_simp
  from f k C9_kind_mismatch_carries_kind [OF f k, of "(=)"] show ?thesis by blast
qed

subsection \<open>C10: a handle without a descriptor\<close>

text \<open>
  C10 states that the constructor fails with \<open>AssertionError\<close> for every handle whose
  descriptor is missing or is not a \<open>Computation\<close> message.  With \<open>initialize\<close> a lambda
  and \<open>prepare\<close> holding \<open>None\<close> for its descriptor, the loop stops at \<open>initialize\<close>
  with the kind-mismatch \<open>TypeError\<close>; and with a \<open>zero\<close> that has no attribute
  \<open>_computation_proto\<close> at all, the read of line 294 raises \<open>AttributeError\<close> before the
  test of line 296 is reached.
\<close>

theorem C10_counterexample:
  "CanonicalForm_init (=) (as_lambda ex_initialize) (without_proto ex_prepare) ex_work ex_zero
     ex_accumulate ex_merge ex_report ex_bitwidth ex_update =
   Inl (TypeError, Format ''Expected all computations supplied as arguments to be plain TensorFlow, found {}.''
     [StrArg (Some ''lambda'')]) \<and>
   CanonicalForm_init (=) ex_initialize ex_prepare ex_work (without_attribute ex_zero)
     ex_accumulate ex_merge ex_report ex_bitwidth ex_update =
   Inl (AttributeError, External)"
  by code_simp

text \<open>
  C10, amended: when the first handle, in the order of the loop, that is not a TensorFlow
  kernel holds, under \<open>_computation_proto\<close>, \<open>None\<close> or an object that is not a
  \<open>Computation\<close> message, the constructor raises \<open>AssertionError\<close>, on every input and
  whatever the handles after it are; for such a handle the test of line 296 comes before
  any read of a kind, a descriptor that is no message having no kind to read.  A handle
  that lacks the attribute is not covered.
\<close>

theorem C10_descriptor_not_a_message:
  assumes "find (\<lambda>c. \<not> native_kernel c)
             [initialize, prepare, work, zero, accumulate, merge, report, bitwidth, update]
           = Some c"
    and "computation_proto c = PyNone \<or> computation_proto c = OtherObject"
  shows "CanonicalForm_init assignable_from initialize prepare work zero accumulate merge
           report bitwidth update =
         Inl (AssertionError, Format ''Cannot find the embedded computation definition.'' [])"
  using assms(1) check_computation_no_message [OF assms(2)] by (rule first_failing_handle)

text \<open>
  At the well-formed round with \<open>zero\<close> holding \<open>None\<close> for its descriptor and, after
  it, \<open>report\<close> a lambda.
\<close>

theorem C10_descriptor_not_a_message_witness:
  "find (\<lambda>c. \<not> native_kernel c)
     [ex_initialize, ex_prepare, ex_work, without_proto ex_zero, ex_accumulate, ex_merge,
      as_lambda ex_report, ex_bitwidth, ex_update] = Some (without_proto ex_zero) \<and>
   computation_proto (without_proto ex_zero) = PyNone \<and>
   CanonicalForm_init (=) ex_initialize ex_prepare ex_work (without_proto ex_zero)
     ex_accumulate ex_merge (as_lambda ex_report) ex_bitwidth ex_update =
   Inl (AssertionError, Format ''Cannot find the embedded computation definition.'' [])"
proof -
  have f: "find (\<lambda>c. \<not> native_kernel c)
     [ex_initialize, ex_prepare, ex_work, without_proto ex_zero, ex_accumulate, ex_merge,
      as_lambda ex_report, ex_bitwidth, ex_update] = Some (without_proto ex_zero)"
    by code_simp
  have d: "computation_proto (without_proto ex_zero) = PyNone"
    by code_simp
  from f d C10_descriptor_not_a_message [OF f disjI1 [OF d], of "(=)"] show ?thesis by blast
qed

end
